theory Spec2Isabelle
  imports Main "HOL-Library.Word" "HOL-Library.Multiset"
begin

section \<open>Lambda expressions: a shallow embedding of source/main.cpp\<close>

text \<open>
  The program is one translation unit: the function template \<open>operation\<close> and \<open>main\<close>,
  whose four blocks build a functor and several closures and call them.

  \<^item> \<open>int\<close> is a 32-bit two's complement integer, \<open>32 word\<close>, read through \<open>sint\<close>.
    The comparisons of the source are the signed ones (\<open><s\<close>). An \<open>int\<close> addition or
    multiplication whose exact result does not fit has no defined behaviour in C++;
    the model returns the error \<open>SignedOverflow\<close> there.
  \<^item> \<open>cout\<close> is the list of characters written so far, \<open>cin\<close> the characters not yet read.
  \<^item> The \<open>int\<close> objects of the third block live in a store indexed by \<open>loc\<close>; an object
    that has no value yet is \<open>None\<close>. The data member \<open>a\<close> of the closure \<open>lessThan2\<close>
    is such an object; the member \<open>a\<close> of \<open>setThing\<close> is a reference, that is a \<open>loc\<close>.
  \<^item> A callable is the effect of its call operator: a function from the arguments and the
    state to an error or a result with the new state.
\<close>

subsection \<open>State, errors, sequencing\<close>

type_synonym int32 = "32 word"

datatype error = SignedOverflow | IndeterminateRead | BadFunctionCall

datatype loc = Larger | Two | LessThan2_a | Smaller | Thing

record state =
  out :: string
  inp :: string
  mem :: "loc \<Rightarrow> int32 option"

type_synonym 'r comp = "state \<Rightarrow> error + 'r \<times> state"

definition returns :: "'r \<Rightarrow> 'r comp" where
  "returns r s = Inr (r, s)"

definition seq :: "'a comp \<Rightarrow> ('a \<Rightarrow> 'b comp) \<Rightarrow> 'b comp" where
  "seq m k s = (case m s of Inl e \<Rightarrow> Inl e | Inr (r, s') \<Rightarrow> k r s')"

definition lift :: "error + 'r \<Rightarrow> 'r comp" where
  "lift v s = (case v of Inl e \<Rightarrow> Inl e | Inr r \<Rightarrow> Inr (r, s))"

subsection \<open>The \<open>int\<close> operators\<close>

definition in_range :: "int \<Rightarrow> bool" where
  "in_range i \<longleftrightarrow> - (2 ^ 31) \<le> i \<and> i < 2 ^ 31"

definition int_add :: "int32 \<Rightarrow> int32 \<Rightarrow> error + int32" where
  "int_add a b = (if in_range (sint a + sint b) then Inr (a + b) else Inl SignedOverflow)"

definition int_mul :: "int32 \<Rightarrow> int32 \<Rightarrow> error + int32" where
  "int_mul a b = (if in_range (sint a * sint b) then Inr (a * b) else Inl SignedOverflow)"

subsection \<open>The streams\<close>

definition digit :: "nat \<Rightarrow> char" where
  "digit d = ''0123456789'' ! (d mod 10)"

function show_nat :: "nat \<Rightarrow> string" where
  "show_nat n =
     (if n < 10 then [digit n] else show_nat (n div 10) @ [digit (n mod 10)])"
  by pat_completeness auto
termination
  by (relation "measure id") auto

declare show_nat.simps [simp del]

definition show_int :: "int32 \<Rightarrow> string" where
  "show_int x =
     (if sint x < 0 then CHR ''-'' # show_nat (nat (- sint x)) else show_nat (nat (sint x)))"

text \<open>\<open>cout << str\<close>, \<open>cout << i\<close> for an \<open>int\<close>, and \<open>cout << endl\<close>.\<close>

definition put :: "string \<Rightarrow> unit comp" where
  "put str s = Inr ((), s\<lparr>out := out s @ str\<rparr>)"

definition put_int :: "int32 \<Rightarrow> unit comp" where
  "put_int i = put (show_int i)"

definition endl :: "unit comp" where
  "endl = put ''\<newline>''"

text \<open>\<open>cin.get()\<close> with the character thrown away: at the end of the input nothing is read.\<close>

definition cin_get :: "unit comp" where
  "cin_get s = Inr ((), s\<lparr>inp := drop 1 (inp s)\<rparr>)"

subsection \<open>Objects of type \<open>int\<close>\<close>

definition assign :: "loc \<Rightarrow> int32 \<Rightarrow> unit comp" where
  "assign x v s = Inr ((), s\<lparr>mem := (mem s)(x \<mapsto> v)\<rparr>)"

definition read_var :: "loc \<Rightarrow> int32 comp" where
  "read_var x s = (case mem s x of None \<Rightarrow> Inl IndeterminateRead | Some v \<Rightarrow> Inr (v, s))"

subsection \<open>The function template \<open>operation\<close>\<close>

definition operation ::
  "int32 \<Rightarrow> int32 \<Rightarrow> (int32 \<Rightarrow> int32 \<Rightarrow> int32 comp) \<Rightarrow> int32 comp" where
  "operation a b func =
     seq (func a b) (\<lambda>result.
     seq (put_int result) (\<lambda>_.
     seq endl (\<lambda>_.
     returns result)))"

subsection \<open>First block: the functor \<open>printFunctor\<close>\<close>

definition printFunctor :: "int32 \<Rightarrow> int32 \<Rightarrow> int32 comp" where
  "printFunctor a b =
     seq (put_int a) (\<lambda>_.
     seq (put '' '') (\<lambda>_.
     seq (put_int b) (\<lambda>_.
     seq endl (\<lambda>_.
     returns 0))))"

definition block1 :: "unit comp" where
  "block1 =
     seq (put ''calling functor with template function:'') (\<lambda>_.
     seq endl (\<lambda>_.
     seq (operation 2 3 printFunctor) (\<lambda>_.
     cin_get)))"

subsection \<open>Second block: the closure \<open>addition\<close>\<close>

definition addition :: "int32 \<Rightarrow> int32 \<Rightarrow> int32 comp" where
  "addition a b = lift (int_add a b)"

definition block2 :: "unit comp" where
  "block2 =
     seq (put ''calling lambda defined function:'') (\<lambda>_.
     seq endl (\<lambda>_.
     seq (addition 2 3) (\<lambda>_.
     seq (put ''passing lambda defined function into template function to be called:'') (\<lambda>_.
     seq endl (\<lambda>_.
     seq (operation 2 3 addition) (\<lambda>_.
     cin_get))))))"

subsection \<open>Third block: captures by value and by reference\<close>

text \<open>The closure called where it is written, \<open>[] (int a, int b) { return a > b ? a : b; }\<close>.\<close>

definition larger_closure :: "int32 \<Rightarrow> int32 \<Rightarrow> int32 comp" where
  "larger_closure a b = returns (if b <s a then a else b)"

text \<open>
  \<open>[a = two]\<close> copies the value of \<open>two\<close> into the closure's own member,
  and the call operator of \<open>lessThan2\<close> reads that member.
\<close>

definition lessThan2_capture :: "unit comp" where
  "lessThan2_capture = seq (read_var Two) (\<lambda>v. assign LessThan2_a v)"

definition lessThan2 :: "int32 \<Rightarrow> int32 comp" where
  "lessThan2 b = seq (read_var LessThan2_a) (\<lambda>a. returns (if a <s b then a else b))"

text \<open>
  \<open>[&a = thing]\<close> binds the reference member \<open>a\<close> of \<open>setThing\<close> to the object \<open>thing\<close>;
  the call operator assigns through it.
\<close>

definition setThing_a :: loc where
  "setThing_a = Thing"

definition setThing :: "int32 \<Rightarrow> unit comp" where
  "setThing b = assign setThing_a b"

text \<open>The objects of the block end with it.\<close>

definition leave_scope :: "unit comp" where
  "leave_scope s = Inr ((), s\<lparr>mem := (\<lambda>_. None)\<rparr>)"

definition block3 :: "unit comp" where
  "block3 =
     seq (larger_closure 2 3) (\<lambda>r.
     seq (assign Larger r) (\<lambda>_.
     seq (put ''larger of 2 and 3: '') (\<lambda>_.
     seq (read_var Larger) (\<lambda>larger.
     seq (put_int larger) (\<lambda>_.
     seq endl (\<lambda>_.
     seq (assign Two 2) (\<lambda>_.
     seq lessThan2_capture (\<lambda>_.
     seq (lessThan2 3) (\<lambda>r.
     seq (assign Smaller r) (\<lambda>_.
     seq (put ''smaller of 2 and 3: '') (\<lambda>_.
     seq (read_var Smaller) (\<lambda>smaller.
     seq (put_int smaller) (\<lambda>_.
     seq endl (\<lambda>_.
     seq (put ''thing: '') (\<lambda>_.
     seq (read_var Thing) (\<lambda>thing.
     seq (put_int thing) (\<lambda>_.
     seq endl (\<lambda>_.
     seq (setThing 2) (\<lambda>_.
     seq (put ''thing: '') (\<lambda>_.
     seq (read_var Thing) (\<lambda>thing.
     seq (put_int thing) (\<lambda>_.
     seq endl (\<lambda>_.
     seq cin_get (\<lambda>_.
     leave_scope))))))))))))))))))))))))"

subsection \<open>Fourth block: \<open>std::function\<close> and \<open>count_if\<close>\<close>

text \<open>
  A \<open>std::function<int(int, int)>\<close> holds a target or is empty; calling an empty one
  throws \<open>bad_function_call\<close>.
\<close>

definition function_call ::
  "(int32 \<Rightarrow> int32 \<Rightarrow> int32 comp) option \<Rightarrow> int32 \<Rightarrow> int32 \<Rightarrow> int32 comp" where
  "function_call f a b s = (case f of None \<Rightarrow> Inl BadFunctionCall | Some g \<Rightarrow> g a b s)"

definition multiply :: "(int32 \<Rightarrow> int32 \<Rightarrow> int32 comp) option" where
  "multiply = Some (\<lambda>a b. lift (int_mul a b))"

definition numbers :: "int32 list" where
  "numbers = [2, 5, 17, 99, 33, - 6]"

definition greaterThan10 :: "int32 \<Rightarrow> bool" where
  "greaterThan10 other \<longleftrightarrow> 10 <s other"

text \<open>
  \<open>std::count_if(first, last, pred)\<close> on the range of a vector: one pass from the first
  element to the last, with a counter that starts at 0.
\<close>

fun count_if_from :: "nat \<Rightarrow> 'a list \<Rightarrow> ('a \<Rightarrow> bool) \<Rightarrow> nat" where
  "count_if_from n [] pred = n"
| "count_if_from n (x # xs) pred = count_if_from (if pred x then n + 1 else n) xs pred"

definition count_if :: "'a list \<Rightarrow> ('a \<Rightarrow> bool) \<Rightarrow> nat" where
  "count_if xs pred = count_if_from 0 xs pred"

definition block4 :: "unit comp" where
  "block4 =
     seq (put ''multiply(2, 3): '') (\<lambda>_.
     seq (function_call multiply 2 3) (\<lambda>r.
     seq (put_int r) (\<lambda>_.
     seq endl (\<lambda>_.
     seq (returns (of_nat (count_if numbers greaterThan10))) (\<lambda>total.
     seq (put ''numbers in array greater than 10'') (\<lambda>_.
     seq (put_int total) (\<lambda>_.
     seq endl (\<lambda>_.
     cin_get))))))))"

definition main :: "int32 comp" where
  "main =
     seq block1 (\<lambda>_.
     seq block2 (\<lambda>_.
     seq block3 (\<lambda>_.
     seq block4 (\<lambda>_.
     returns 0))))"

subsection \<open>Running the program\<close>

text \<open>The state in which \<open>main\<close> starts: nothing written, no object alive.\<close>

definition start :: "string \<Rightarrow> state" where
  "start input = \<lparr>out = [], inp = input, mem = (\<lambda>_. None)\<rparr>"

text \<open>What a call returns, without the state it leaves.\<close>

definition result :: "error + 'r \<times> state \<Rightarrow> error + 'r" where
  "result v = (case v of Inl e \<Rightarrow> Inl e | Inr (r, s) \<Rightarrow> Inr r)"

text \<open>Assignments \<open>x = v\<close> to one object, one after the other.\<close>

fun assigns :: "loc \<Rightarrow> int32 list \<Rightarrow> unit comp" where
  "assigns x [] = returns ()"
| "assigns x (v # vs) = seq (assign x v) (\<lambda>_. assigns x vs)"

section \<open>Properties\<close>

subsection \<open>Auxiliary facts\<close>

lemmas run_simps = seq_def returns_def put_def put_int_def endl_def cin_get_def

lemma show_int_small:
  "show_int 0 = ''0''" "show_int 2 = ''2''" "show_int 3 = ''3''"
  "show_int 5 = ''5''" "show_int 6 = ''6''"
  by (simp_all add: show_int_def show_nat.simps digit_def)

lemma count_if_from_filter: "count_if_from n xs pred = n + length (filter pred xs)"
  by (induction xs arbitrary: n) simp_all

lemma count_if_filter: "count_if xs pred = length (filter pred xs)"
  by (simp add: count_if_def count_if_from_filter)

lemma count_if_mset: "count_if xs pred = size (filter_mset pred (mset xs))"
  by (simp add: count_if_filter flip: mset_filter)

lemma sint_mul_in_range:
  fixes a b :: int32
  assumes "in_range (sint a * sint b)"
  shows "sint (a * b) = sint a * sint b"
proof -
  have "sint (a * b) = signed_take_bit 31 (sint a * sint b)"
    by (simp add: sint_word_ariths)
  also have "\<dots> = sint a * sint b"
    using assms by (simp add: in_range_def signed_take_bit_int_eq_self)
  finally show ?thesis .
qed

lemma lessThan2_reads_member:
  "mem t LessThan2_a = mem s LessThan2_a \<Longrightarrow> result (lessThan2 b t) = result (lessThan2 b s)"
  by (simp add: lessThan2_def read_var_def seq_def returns_def result_def split: option.splits)

lemma assigns_Two_keeps_member:
  "\<exists>t. assigns Two vs s = Inr ((), t) \<and> mem t LessThan2_a = mem s LessThan2_a"
proof (induction vs arbitrary: s)
  case Nil
  show ?case by (simp add: returns_def)
next
  case (Cons v vs)
  obtain t where "assigns Two vs (s\<lparr>mem := (mem s)(Two \<mapsto> v)\<rparr>) = Inr ((), t)"
    and "mem t LessThan2_a = mem (s\<lparr>mem := (mem s)(Two \<mapsto> v)\<rparr>) LessThan2_a"
    using Cons.IH by blast
  then show ?case by (simp add: seq_def assign_def)
qed

lemma operation_propagates:
  "func a b s = Inl e \<Longrightarrow> operation a b func s = Inl e"
  by (simp add: operation_def seq_def)

text \<open>
  The third block prints \<open>thing\<close> before anything has been assigned to it, so a run of
  the block, and of \<open>main\<close>, has no defined result from that statement on. The properties
  of the closures below are therefore stated for calls from any state.
\<close>

lemma block3_reads_indeterminate: "block3 (start input) = Inl IndeterminateRead"
  by (simp add: block3_def larger_closure_def lessThan2_capture_def lessThan2_def
      setThing_def assign_def read_var_def run_simps start_def)

subsection \<open>The generic invoker\<close>

text \<open>
  C2. For all \<open>int\<close>s \<open>a\<close>, \<open>b\<close> and every callable \<open>func\<close>: when \<open>func(a, b)\<close> returns
  \<open>r\<close>, \<open>operation(a, b, func)\<close> returns \<open>r\<close> too, and the state it leaves is the one
  \<open>func\<close> left with the decimal text of \<open>r\<close> and a newline appended to the output;
  the input and the objects are as \<open>func\<close> left them.
\<close>

theorem operation_returns_func:
  assumes "func a b s = Inr (r, s')"
  shows "operation a b func s = Inr (r, s'\<lparr>out := out s' @ show_int r @ ''\<newline>''\<rparr>)"
  using assms by (simp add: operation_def run_simps)

theorem operation_returns_func_witness:
  "addition 2 3 (start []) = Inr (5, start []) \<and>
   operation 2 3 addition (start []) = Inr (5, (start [])\<lparr>out := ''5\<newline>''\<rparr>)"
proof -
  have h: "addition 2 3 (start []) = Inr (5, start [])"
    by (simp add: addition_def lift_def int_add_def in_range_def)
  show ?thesis
    using h operation_returns_func [of addition 2 3 "start []" 5 "start []", OF h]
    by (simp add: show_int_small start_def)
qed

subsection \<open>The functor\<close>

text \<open>
  C5. The call operator of \<open>printFunctor\<close> writes \<open>a\<close>, a space, \<open>b\<close> and a newline and
  returns 0 whatever \<open>a\<close> and \<open>b\<close> are. Passed to \<open>operation\<close> with \<open>(2, 3)\<close> it adds the
  line \<open>2 3\<close> and then the line \<open>0\<close> to the output, and so does the first block after
  its heading.
\<close>

theorem printFunctor_output:
  "printFunctor a b s =
     Inr (0, s\<lparr>out := out s @ show_int a @ '' '' @ show_int b @ ''\<newline>''\<rparr>) \<and>
   operation 2 3 printFunctor s = Inr (0, s\<lparr>out := out s @ ''2 3\<newline>0\<newline>''\<rparr>) \<and>
   block1 s =
     Inr ((), s\<lparr>out := out s @ ''calling functor with template function:\<newline>2 3\<newline>0\<newline>'',
                inp := drop 1 (inp s)\<rparr>)"
  by (simp add: block1_def operation_def printFunctor_def run_simps show_int_small)

subsection \<open>The closure \<open>addition\<close>\<close>

text \<open>
  C6. Called with \<open>(2, 3)\<close>, \<open>addition\<close> returns 5 and leaves the state, the output with
  it, as it was. Passed to \<open>operation\<close> with \<open>(2, 3)\<close> it returns 5 and the line \<open>5\<close>
  is written.
\<close>

theorem addition_2_3:
  "addition 2 3 s = Inr (5, s) \<and>
   operation 2 3 addition s = Inr (5, s\<lparr>out := out s @ ''5\<newline>''\<rparr>)"
  by (simp add: operation_def addition_def lift_def int_add_def in_range_def run_simps
      show_int_small)

subsection \<open>Capture by value\<close>

text \<open>
  C3. Let \<open>two\<close> be 2 when \<open>lessThan2\<close> is built. Then \<open>lessThan2(3)\<close> returns 2. Whatever
  values are assigned to \<open>two\<close> after the capture, and however many, \<open>lessThan2(b)\<close>
  returns what it returns without them, the smaller of 2 and \<open>b\<close>.
\<close>

theorem lessThan2_value_capture:
  assumes "mem s Two = Some 2"
  shows "seq lessThan2_capture (\<lambda>_. lessThan2 3) s =
           Inr (2, s\<lparr>mem := (mem s)(LessThan2_a \<mapsto> 2)\<rparr>) \<and>
         result (seq lessThan2_capture (\<lambda>_. seq (assigns Two vs) (\<lambda>_. lessThan2 b)) s) =
           result (seq lessThan2_capture (\<lambda>_. lessThan2 b) s) \<and>
         result (seq lessThan2_capture (\<lambda>_. lessThan2 b) s) = Inr (if 2 <s b then 2 else b)"
proof -
  let ?s' = "s\<lparr>mem := (mem s)(LessThan2_a \<mapsto> 2)\<rparr>"
  have cap: "lessThan2_capture s = Inr ((), ?s')"
    using assms by (simp add: lessThan2_capture_def read_var_def assign_def seq_def)
  have call: "lessThan2 b ?s' = Inr (if 2 <s b then 2 else b, ?s')" for b
    by (simp add: lessThan2_def read_var_def seq_def returns_def)
  obtain t where t: "assigns Two vs ?s' = Inr ((), t)"
    "mem t LessThan2_a = mem ?s' LessThan2_a"
    using assigns_Two_keeps_member by blast
  have "result (lessThan2 b t) = result (lessThan2 b ?s')"
    using t(2) by (rule lessThan2_reads_member)
  then show ?thesis
    using cap call [of 3] call [of b] t(1) by (simp add: seq_def result_def)
qed

theorem lessThan2_value_capture_witness:
  "mem ((start [])\<lparr>mem := (mem (start []))(Two \<mapsto> 2)\<rparr>) Two = Some 2 \<and>
   result (seq lessThan2_capture (\<lambda>_. seq (assigns Two [7, - 1]) (\<lambda>_. lessThan2 (- 4)))
     ((start [])\<lparr>mem := (mem (start []))(Two \<mapsto> 2)\<rparr>)) = Inr (- 4)"
proof -
  let ?s = "(start [])\<lparr>mem := (mem (start []))(Two \<mapsto> 2)\<rparr>"
  have h: "mem ?s Two = Some 2"
    by simp
  have "result (seq lessThan2_capture (\<lambda>_. seq (assigns Two [7, - 1]) (\<lambda>_. lessThan2 (- 4))) ?s)
      = Inr (if (2 :: int32) <s - 4 then 2 else - 4)"
    using lessThan2_value_capture [of ?s "[7, - 1]" "- 4", OF h] by simp
  then show ?thesis
    using h by simp
qed

subsection \<open>Capture by reference\<close>

text \<open>
  C4. From any state, also one in which \<open>thing\<close> has no value yet, \<open>setThing(2)\<close> leaves
  the object \<open>thing\<close> with the value 2: reading \<open>thing\<close> right after the call gives 2.
\<close>

theorem setThing_sets_thing:
  "setThing 2 s = Inr ((), s\<lparr>mem := (mem s)(Thing \<mapsto> 2)\<rparr>) \<and>
   seq (setThing 2) (\<lambda>_. read_var Thing) s = Inr (2, s\<lparr>mem := (mem s)(Thing \<mapsto> 2)\<rparr>)"
  by (simp add: setThing_def setThing_a_def assign_def read_var_def seq_def)

text \<open>
  C10. For every \<open>b\<close>, \<open>setThing(b)\<close> returns, and it leaves \<open>larger\<close>, \<open>two\<close>, the member
  of \<open>lessThan2\<close> and \<open>smaller\<close> as they were, writes nothing and reads nothing; what
  \<open>lessThan2\<close> returns afterwards is what it returned before.
\<close>

theorem setThing_frame:
  "\<exists>s'. setThing b s = Inr ((), s') \<and>
     mem s' Larger = mem s Larger \<and> mem s' Two = mem s Two \<and>
     mem s' LessThan2_a = mem s LessThan2_a \<and> mem s' Smaller = mem s Smaller \<and>
     out s' = out s \<and> inp s' = inp s \<and>
     result (lessThan2 c s') = result (lessThan2 c s)"
proof -
  let ?s' = "s\<lparr>mem := (mem s)(Thing \<mapsto> b)\<rparr>"
  have call: "setThing b s = Inr ((), ?s')"
    by (simp add: setThing_def setThing_a_def assign_def)
  have "mem ?s' LessThan2_a = mem s LessThan2_a"
    by simp
  then have "result (lessThan2 c ?s') = result (lessThan2 c s)"
    by (rule lessThan2_reads_member)
  with call show ?thesis
    by simp
qed

subsection \<open>The \<open>std::function\<close> \<open>multiply\<close>\<close>

text \<open>C7. \<open>multiply(2, 3)\<close> returns 6 and leaves the state as it was.\<close>

theorem multiply_2_3: "function_call multiply 2 3 s = Inr (6, s)"
  by (simp add: function_call_def multiply_def lift_def int_mul_def in_range_def)

text \<open>
  C9, as stated, fails where the product does not fit an \<open>int\<close>: 65536 * 65536 is
  2 ^ 32, and the call has no defined result.
\<close>

theorem multiply_overflow:
  "function_call multiply 65536 65536 (start []) = Inl SignedOverflow"
  by (simp add: function_call_def multiply_def lift_def int_mul_def in_range_def)

text \<open>
  C9, amended. For all \<open>int\<close>s \<open>a\<close> and \<open>b\<close> whose product fits an \<open>int\<close>, \<open>multiply(a, b)\<close>
  returns that product and leaves the state as it was; for all other \<open>a\<close> and \<open>b\<close> the
  multiplication overflows and the call has no defined result.
\<close>

theorem multiply_in_range:
  "(in_range (sint a * sint b) \<longrightarrow>
      function_call multiply a b s = Inr (a * b, s) \<and> sint (a * b) = sint a * sint b) \<and>
   (\<not> in_range (sint a * sint b) \<longrightarrow>
      function_call multiply a b s = Inl SignedOverflow)"
  by (simp add: function_call_def multiply_def lift_def int_mul_def sint_mul_in_range)

theorem multiply_in_range_witness:
  "in_range (sint (- 7 :: int32) * sint (6 :: int32)) \<and>
   function_call multiply (- 7) 6 (start []) = Inr (- 42, start []) \<and>
   sint (- 42 :: int32) = - 42 \<and>
   \<not> in_range (sint (- 2147483648 :: int32) * sint (- 1 :: int32)) \<and>
   function_call multiply (- 2147483648) (- 1) (start []) = Inl SignedOverflow"
  using multiply_in_range [of "- 7" 6 "start []"]
    multiply_in_range [of "- 2147483648" "- 1" "start []"]
  by (simp add: in_range_def)

subsection \<open>Counting\<close>

text \<open>
  C1, as stated, fails: the count of the elements of \<open>{2, 5, 17, 99, 33, -6}\<close> that are
  greater than 10 is not 2.
\<close>

theorem count_if_numbers_not_2: "count_if numbers greaterThan10 \<noteq> 2"
  by (simp add: count_if_def numbers_def greaterThan10_def)

text \<open>
  C1, amended. \<open>count_if\<close> on \<open>{2, 5, 17, 99, 33, -6}\<close> with \<open>greaterThan10\<close> returns
  exactly 3: the elements 17, 99 and 33 are greater than 10.
\<close>

theorem count_if_numbers:
  "count_if numbers greaterThan10 = 3 \<and> filter greaterThan10 numbers = [17, 99, 33]"
  by (simp add: count_if_def numbers_def greaterThan10_def)

text \<open>
  C8. On every sequence with the elements of \<open>{2, 5, 17, 99, 33, -6}\<close> in some order,
  \<open>count_if\<close> with \<open>greaterThan10\<close> returns what it returns on the sequence itself.
\<close>

theorem count_if_permutation:
  assumes "mset ys = mset numbers"
  shows "count_if ys greaterThan10 = count_if numbers greaterThan10"
  using assms by (simp add: count_if_mset)

theorem count_if_permutation_witness:
  "mset [- 6, 33, 99, 17, 5, 2] = mset numbers \<and>
   count_if [- 6, 33, 99, 17, 5, 2] greaterThan10 = count_if numbers greaterThan10"
proof -
  have h: "mset [- 6, 33, 99, 17, 5, 2] = mset numbers"
    by (simp add: numbers_def)
  show ?thesis
    using h count_if_permutation [OF h] by simp
qed

end
